theory Spec2Isabelle
  imports Main "HOL-Library.Sublist" "HOL-Library.AList"
begin

section \<open>The message list of the conversation view\<close>

text \<open>
  \<^verbatim>\<open>src/src/contexts/Chat.tsx\<close> keeps the conversation in one React state cell,
  \<^verbatim>\<open>const [messages, setMessages] = useState<Message[]>([])\<close>, and changes it only
  through functional updaters \<^verbatim>\<open>setMessages(prev => ...)\<close>. Each updater is a pure
  function from the previous list to the next one, and is embedded as such. A row of the
  \<^verbatim>\<open>messages\<close> table has the columns below; timestamps are ISO strings.
\<close>

record Message =
  msg_id :: string
  chat_id :: string
  sender_id :: string
  content :: "string option"
  created_at :: string
  media_url :: "string option"
  media_type :: "string option"

text \<open>
  Optimistic send, \<^verbatim>\<open>handleSendMessage\<close>: the draft is appended under a temporary id
  (\<^verbatim>\<open>setMessages(prev => [...prev, optimisticMessage])\<close>); when the insert returns the
  stored row, every entry carrying the temporary id is replaced by it
  (\<^verbatim>\<open>prev.map(msg => msg.id === tempId ? data : msg)\<close>); when the insert fails the
  entry is filtered out again.
\<close>

definition appendOptimistic :: "Message \<Rightarrow> Message list \<Rightarrow> Message list" where
  "appendOptimistic optimisticMessage prev = prev @ [optimisticMessage]"

definition reconcile :: "string \<Rightarrow> Message \<Rightarrow> Message list \<Rightarrow> Message list" where
  "reconcile tempId data prev = map (\<lambda>msg. if msg_id msg = tempId then data else msg) prev"

definition rollback :: "string \<Rightarrow> Message list \<Rightarrow> Message list" where
  "rollback tempId prev = filter (\<lambda>msg. msg_id msg \<noteq> tempId) prev"

text \<open>
  Change feed, \<^verbatim>\<open>setupRealtimeSubscription\<close>. The INSERT handler returns \<^verbatim>\<open>prev\<close>
  when \<^verbatim>\<open>prev.some(msg => msg.id === newMessage.id)\<close> and \<^verbatim>\<open>[...prev, newMessage]\<close>
  otherwise. The DELETE handler, the storage listener and the \<^verbatim>\<open>messageDeleted\<close>
  listener all run \<^verbatim>\<open>prev.filter(msg => msg.id !== id)\<close>. The component keeps no
  record of deleted ids.
\<close>

definition applyRemoteInsert :: "Message \<Rightarrow> Message list \<Rightarrow> Message list" where
  "applyRemoteInsert newMessage prev =
     (if list_ex (\<lambda>msg. msg_id msg = msg_id newMessage) prev then prev
      else prev @ [newMessage])"

definition applyRemoteDelete :: "string \<Rightarrow> Message list \<Rightarrow> Message list" where
  "applyRemoteDelete deletedMessageId prev =
     filter (\<lambda>msg. msg_id msg \<noteq> deletedMessageId) prev"

text \<open>The events that reach the list, and a run of them in delivery order.\<close>

datatype store_event =
    AppendOptimistic Message
  | Reconcile string Message
  | Rollback string
  | RemoteInsert Message
  | RemoteDelete string

fun apply_event :: "store_event \<Rightarrow> Message list \<Rightarrow> Message list" where
  "apply_event (AppendOptimistic m) prev = appendOptimistic m prev"
| "apply_event (Reconcile t d) prev = reconcile t d prev"
| "apply_event (Rollback t) prev = rollback t prev"
| "apply_event (RemoteInsert m) prev = applyRemoteInsert m prev"
| "apply_event (RemoteDelete i) prev = applyRemoteDelete i prev"

definition run_events :: "store_event list \<Rightarrow> Message list \<Rightarrow> Message list" where
  "run_events evs prev = fold apply_event evs prev"

definition ids :: "Message list \<Rightarrow> string list" where
  "ids prev = map msg_id prev"

text \<open>Sample rows: a text draft under a temporary id and the row the database returns for it.\<close>

definition draft_hi :: Message where
  "draft_hi = \<lparr>msg_id = ''temp-1700000000000'', chat_id = ''c1'', sender_id = ''u1'',
     content = Some ''hi'', created_at = ''2025-01-01T00:00:00.000Z'',
     media_url = None, media_type = None\<rparr>"

definition stored_hi :: Message where
  "stored_hi = \<lparr>msg_id = ''m1'', chat_id = ''c1'', sender_id = ''u1'',
     content = Some ''hi'', created_at = ''2025-01-01T00:00:00.100Z'',
     media_url = None, media_type = None\<rparr>"

section \<open>The world outside a tab and the state of one tab\<close>

text \<open>
  Every browser tab mounts its own \<^verbatim>\<open>Chat\<close> component: its React state cells, its
  \<^verbatim>\<open>onlineStatusRef\<close> (a \<^verbatim>\<open>useRef\<close>, so one object per mounted component), its window
  and its timers belong to that tab alone. What the tabs of one browser profile share is
  \<^verbatim>\<open>localStorage\<close> and, through the network, the database and the media store.
\<close>

record PresenceRecord =
  is_online :: bool
  last_seen :: "int option"
  last_heartbeat :: "int option"

text \<open>
  The two shapes of \<^verbatim>\<open>.from('profiles').update(...)\<close> in the component: all three
  presence columns (\<^verbatim>\<open>updateOnlineStatus\<close>, \<^verbatim>\<open>cleanupAndGoOffline\<close>) or the
  heartbeat columns only (\<^verbatim>\<open>sendHeartbeat\<close>). Times are milliseconds since the epoch.
\<close>

datatype profile_update =
    FullUpdate bool "int option" "int option"
  | HeartbeatUpdate int

fun apply_update :: "profile_update \<Rightarrow> PresenceRecord \<Rightarrow> PresenceRecord" where
  "apply_update (FullUpdate online seen beat) r =
     \<lparr>is_online = online, last_seen = seen, last_heartbeat = beat\<rparr>"
| "apply_update (HeartbeatUpdate beat) r = r\<lparr>last_heartbeat := Some beat, is_online := True\<rparr>"

text \<open>
  How an awaited request ends: it succeeds, it resolves with \<^verbatim>\<open>{ error }\<close> (for a
  \<^verbatim>\<open>select\<close>: \<^verbatim>\<open>data\<close> is \<^verbatim>\<open>null\<close>), or the promise rejects.
\<close>

datatype outcome = Done | Failed | Thrown

record deletionEvent =
  del_chatId :: string
  del_messageId :: string
  del_timestamp :: int

record world =
  profiles_row :: PresenceRecord
  issued :: "profile_update list"
  db_messages :: "Message list"
  storage_objects :: "(string \<times> string) list"
  active_tabs :: "(string \<times> int) list"
  ls_unread_messages :: "(string \<rightharpoonup> nat) option"
  ls_deletions :: "(string \<times> deletionEvent) list"
  net :: "outcome list"

text \<open>
  \<^verbatim>\<open>profiles_row\<close> is the local user's row of \<^verbatim>\<open>profiles\<close> and \<^verbatim>\<open>issued\<close> the
  updates sent for it, in order, whether or not they took effect. \<^verbatim>\<open>active_tabs\<close>,
  \<^verbatim>\<open>ls_unread_messages\<close> and \<^verbatim>\<open>ls_deletions\<close> are the \<^verbatim>\<open>localStorage\<close> keys
  \<^verbatim>\<open>active_tabs\<close>, \<^verbatim>\<open>unread_messages\<close> and \<^verbatim>\<open>delete_<messageId>\<close>, parsed.
  \<^verbatim>\<open>net\<close> scripts how the coming requests end; when the script is used up, requests
  succeed.
\<close>

definition await :: "world \<Rightarrow> outcome \<times> world" where
  "await w = (case net w of [] \<Rightarrow> (Done, w) | r # rs \<Rightarrow> (r, w\<lparr>net := rs\<rparr>))"

record RecentChat =
  rc_id :: string
  last_message :: "string option"
  last_message_time :: "string option"
  unread_count :: nat

record DeleteModal =
  dm_messageId :: string
  dm_isOwnMessage :: bool

record tab =
  profile_id :: "string option"
  messages :: "Message list"
  unreadMessages :: "string \<rightharpoonup> nat"
  recentChats :: "RecentChat list"
  deleteModal :: "DeleteModal option"
  messageMenu :: "string option"
  pathname :: string
  dispatched :: "deletionEvent list"
  alerts :: "string list"
  console_error :: "string list"
  isOnline :: bool
  lastHeartbeat :: int
  tabCount :: nat
  heartbeatInterval :: "nat option"
  lastVisibilityChange :: int
  isMinimized :: bool
  minimizeTimeout :: "nat option"
  intervals :: "nat list"
  next_handle :: nat

text \<open>
  \<^verbatim>\<open>isOnline\<close> to \<^verbatim>\<open>minimizeTimeout\<close> are the fields of \<^verbatim>\<open>onlineStatusRef.current\<close>;
  \<^verbatim>\<open>intervals\<close> are the handles of the tab's running \<^verbatim>\<open>setInterval\<close> timers and
  \<^verbatim>\<open>next_handle\<close> the handle the next timer gets. \<^verbatim>\<open>messageMenu\<close> keeps the id of
  the message whose menu is open, \<^verbatim>\<open>dispatched\<close> the \<^verbatim>\<open>messageDeleted\<close> events sent
  on the tab's window.
\<close>

definition truthy :: "string option \<Rightarrow> bool" where
  "truthy s = (case s of None \<Rightarrow> False | Some v \<Rightarrow> v \<noteq> [])"

definition log_error :: "string \<Rightarrow> tab \<Rightarrow> tab" where
  "log_error msg t = t\<lparr>console_error := console_error t @ [msg]\<rparr>"

section \<open>Unread counters and the insert event\<close>

text \<open>\<^verbatim>\<open>String.prototype.includes\<close>: the pattern occurs somewhere in the text.\<close>

fun includes_str :: "string \<Rightarrow> string \<Rightarrow> bool" where
  "includes_str [] pat = (pat = [])"
| "includes_str (c # cs) pat = (prefix pat (c # cs) \<or> includes_str cs pat)"

text \<open>
  \<^verbatim>\<open>incrementUnreadCount(targetChatId, message?)\<close> returns early on an empty chat id,
  on a missing profile id, and on a message of the local user; otherwise it stores
  \<^verbatim>\<open>(prev[targetChatId] || 0) + 1\<close>, saves the mapping to \<^verbatim>\<open>localStorage\<close> and
  copies the new count into the matching entry of \<^verbatim>\<open>recentChats\<close>.
\<close>

definition incrementUnreadCount ::
  "string \<Rightarrow> Message option \<Rightarrow> world \<times> tab \<Rightarrow> world \<times> tab" where
  "incrementUnreadCount targetChatId message s =
     (case s of (w, t) \<Rightarrow>
        if targetChatId = [] \<or> \<not> truthy (profile_id t) then (w, t)
        else if (case message of None \<Rightarrow> False
                 | Some m \<Rightarrow> Some (sender_id m) = profile_id t) then (w, t)
        else
          let n = (case unreadMessages t targetChatId of None \<Rightarrow> 0 | Some k \<Rightarrow> k) + 1;
              updated = (unreadMessages t)(targetChatId \<mapsto> n)
          in (w\<lparr>ls_unread_messages := Some updated\<rparr>,
              t\<lparr>unreadMessages := updated,
                recentChats := map (\<lambda>chat. if rc_id chat = targetChatId
                                           then chat\<lparr>unread_count := n\<rparr> else chat)
                                   (recentChats t)\<rparr>))"

text \<open>
  The INSERT handler of the channel for chat \<^verbatim>\<open>chatId\<close>. A row whose id is already
  listed changes nothing. Otherwise the handler looks for \<^verbatim>\<open>/chat/<chatId>\<close> in
  \<^verbatim>\<open>window.location.pathname\<close>, counts the row as unread when the path does not show
  the chat and the sender is not the local user, and appends the row.
\<close>

definition onInsertEvent :: "string \<Rightarrow> Message \<Rightarrow> world \<times> tab \<Rightarrow> world \<times> tab" where
  "onInsertEvent chatId newMessage s =
     (case s of (w, t) \<Rightarrow>
        if list_ex (\<lambda>msg. msg_id msg = msg_id newMessage) (messages t) then (w, t)
        else
          let isViewingThisChat = includes_str (pathname t) (''/chat/'' @ chatId);
              prev = messages t;
              (w1, t1) = (if \<not> isViewingThisChat \<and> Some (sender_id newMessage) \<noteq> profile_id t
                          then incrementUnreadCount chatId (Some newMessage) (w, t)
                          else (w, t))
          in (w1, t1\<lparr>messages := prev @ [newMessage]\<rparr>))"

section \<open>Deleting a message\<close>

text \<open>\<^verbatim>\<open>media_url.split('/').pop()\<close>: what follows the last slash.\<close>

definition last_segment :: "string \<Rightarrow> string" where
  "last_segment url = rev (takeWhile (\<lambda>c. c \<noteq> CHR ''/'') (rev url))"

text \<open>
  The inner \<^verbatim>\<open>try\<close> of the delete-for-everyone branch: a message with a non-empty
  \<^verbatim>\<open>media_url\<close> has its file removed from the bucket of its media type. The result of
  the removal is not inspected; a rejection is caught and logged.
\<close>

definition remove_media :: "Message \<Rightarrow> world \<times> tab \<Rightarrow> world \<times> tab" where
  "remove_media messageToDelete s =
     (case s of (w, t) \<Rightarrow>
        if \<not> truthy (media_url messageToDelete) then (w, t)
        else
          let bucket = (if media_type messageToDelete = Some ''video''
                        then ''videos'' else ''images'');
              fileName = last_segment (the (media_url messageToDelete))
          in if fileName = [] then (w, t)
             else (case await w of
                     (Done, w1) \<Rightarrow>
                       (w1\<lparr>storage_objects :=
                              filter (\<lambda>obj. obj \<noteq> (bucket, fileName)) (storage_objects w1)\<rparr>, t)
                   | (Failed, w1) \<Rightarrow> (w1, t)
                   | (Thrown, w1) \<Rightarrow> (w1, log_error ''Error deleting media'' t)))"

text \<open>
  The end of the \<^verbatim>\<open>try\<close> block of \<^verbatim>\<open>handleDeleteMessage\<close>, reached on both
  branches: the message leaves the local list and both dialogs close.
\<close>

definition remove_locally :: "string \<Rightarrow> tab \<Rightarrow> tab" where
  "remove_locally messageId t =
     t\<lparr>messages := filter (\<lambda>msg. msg_id msg \<noteq> messageId) (messages t),
       deleteModal := None, messageMenu := None\<rparr>"

text \<open>
  \<^verbatim>\<open>handleDeleteMessage(deleteForEveryone)\<close> in the view of chat \<^verbatim>\<open>chatId\<close> at time
  \<^verbatim>\<open>now\<close>. It returns at once without a delete dialog, without a profile, or when the
  dialog's message is not in the list. Delete for everyone removes the media, deletes
  the row (an error goes to the \<^verbatim>\<open>catch\<close>: an alert, and nothing else changes),
  stores the deletion record under \<^verbatim>\<open>delete_<messageId>\<close> and dispatches
  \<^verbatim>\<open>messageDeleted\<close>, whose listener in the same view filters the list. Delete for me
  filters the list only.
\<close>

definition handleDeleteMessage :: "string \<Rightarrow> bool \<Rightarrow> int \<Rightarrow> world \<times> tab \<Rightarrow> world \<times> tab" where
  "handleDeleteMessage chatId deleteForEveryone now s =
     (case s of (w, t) \<Rightarrow>
        (case deleteModal t of
           None \<Rightarrow> (w, t)
         | Some dm \<Rightarrow>
             if profile_id t = None then (w, t)
             else
               (case find (\<lambda>msg. msg_id msg = dm_messageId dm) (messages t) of
                  None \<Rightarrow> (w, t)
                | Some messageToDelete \<Rightarrow>
                    if deleteForEveryone then
                      (case remove_media messageToDelete (w, t) of (w1, t1) \<Rightarrow>
                         (case await w1 of
                            (Done, w2) \<Rightarrow>
                              let deletion = \<lparr>del_chatId = chatId,
                                     del_messageId = dm_messageId dm, del_timestamp = now\<rparr>;
                                  w3 = w2\<lparr>db_messages :=
                                            filter (\<lambda>row. msg_id row \<noteq> dm_messageId dm)
                                              (db_messages w2),
                                          ls_deletions :=
                                            AList.update (dm_messageId dm) deletion
                                              (ls_deletions w2)\<rparr>;
                                  t2 = t1\<lparr>dispatched := dispatched t1 @ [deletion],
                                          messages := applyRemoteDelete (dm_messageId dm)
                                                        (messages t1)\<rparr>
                              in (w3, remove_locally (dm_messageId dm) t2)
                          | (r, w2) \<Rightarrow>
                              (w2, (log_error ''Delete failed'' t1)
                                     \<lparr>alerts := alerts t1 @
                                        [''Failed to delete message. Please try again.'']\<rparr>)))
                    else
                      (w, remove_locally (dm_messageId dm)
                            (t\<lparr>messages := filter (\<lambda>msg. msg_id msg \<noteq> dm_messageId dm)
                                               (messages t)\<rparr>)))))"

section \<open>Presence: status writes, heartbeat, liveness check, tab registry\<close>

text \<open>
  \<^verbatim>\<open>updateOnlineStatus(isOnline)\<close> at time \<^verbatim>\<open>now\<close>. Without a profile id it does
  nothing. It sends \<^verbatim>\<open>{is_online, last_seen: isOnline ? null : now, last_heartbeat:
  isOnline ? now : null}\<close>; only when the update comes back without an error does it
  copy \<^verbatim>\<open>isOnline\<close> into the tab's \<^verbatim>\<open>onlineStatusRef\<close>. An error and a rejection
  are logged.
\<close>

definition updateData :: "bool \<Rightarrow> int \<Rightarrow> profile_update" where
  "updateData online now =
     FullUpdate online (if online then None else Some now) (if online then Some now else None)"

definition updateOnlineStatus :: "bool \<Rightarrow> int \<Rightarrow> world \<times> tab \<Rightarrow> world \<times> tab" where
  "updateOnlineStatus online now s =
     (case s of (w, t) \<Rightarrow>
        if \<not> truthy (profile_id t) then (w, t)
        else
          (case await w of (r, w1) \<Rightarrow>
             let w2 = w1\<lparr>issued := issued w1 @ [updateData online now]\<rparr>
             in (case r of
                   Done \<Rightarrow> (w2\<lparr>profiles_row :=
                                  apply_update (updateData online now) (profiles_row w2)\<rparr>,
                            t\<lparr>isOnline := online\<rparr>)
                 | Failed \<Rightarrow> (w2, log_error ''Error updating online status'' t)
                 | Thrown \<Rightarrow> (w2, log_error ''Error updating online status'' t))))"

text \<open>
  The \<^verbatim>\<open>try\<close> block of \<^verbatim>\<open>sendHeartbeat\<close>. It reads the row; when the tab believes
  it is online and the row read says offline it awaits \<^verbatim>\<open>updateOnlineStatus(true)\<close>;
  then it sends \<^verbatim>\<open>{last_heartbeat: now, is_online: true}\<close>, whose result it does not
  inspect, and notes the time in \<^verbatim>\<open>onlineStatusRef\<close>. A rejected request leaves the
  block: \<open>Inl\<close> carries the state reached.
\<close>

definition sendHeartbeat_try ::
  "int \<Rightarrow> world \<times> tab \<Rightarrow> (string \<times> world \<times> tab) + world \<times> tab" where
  "sendHeartbeat_try now s =
     (case s of (w, t) \<Rightarrow>
        (case await w of
           (Thrown, w1) \<Rightarrow> Inl (''select rejected'', w1, t)
         | (r, w1) \<Rightarrow>
             let currentStatus = (if r = Done then Some (profiles_row w1) else None);
                 (w2, t2) = (if isOnline t \<and> currentStatus \<noteq> None
                                \<and> \<not> is_online (the currentStatus)
                             then updateOnlineStatus True now (w1, t) else (w1, t))
             in (case await w2 of (r', w3) \<Rightarrow>
                   let w4 = w3\<lparr>issued := issued w3 @ [HeartbeatUpdate now]\<rparr>
                   in (case r' of
                         Done \<Rightarrow> Inr (w4\<lparr>profiles_row :=
                                            apply_update (HeartbeatUpdate now) (profiles_row w4)\<rparr>,
                                      t2\<lparr>lastHeartbeat := now\<rparr>)
                       | Failed \<Rightarrow> Inr (w4, t2\<lparr>lastHeartbeat := now\<rparr>)
                       | Thrown \<Rightarrow> Inl (''update rejected'', w4, t2)))))"

text \<open>
  \<^verbatim>\<open>sendHeartbeat(isInitial)\<close>: nothing without a profile id, and nothing on a
  periodic call while \<^verbatim>\<open>onlineStatusRef.current.isOnline\<close> is false. The \<^verbatim>\<open>catch\<close>
  logs; for the initial heartbeat it also calls \<^verbatim>\<open>updateOnlineStatus(false)\<close>.
\<close>

definition sendHeartbeat ::
  "bool \<Rightarrow> int \<Rightarrow> world \<times> tab \<Rightarrow> (string \<times> world \<times> tab) + world \<times> tab" where
  "sendHeartbeat isInitial now s =
     (case s of (w, t) \<Rightarrow>
        if \<not> truthy (profile_id t) \<or> (\<not> isInitial \<and> \<not> isOnline t) then Inr (w, t)
        else
          (case sendHeartbeat_try now (w, t) of
             Inr s' \<Rightarrow> Inr s'
           | Inl (err, w1, t1) \<Rightarrow>
               let t2 = log_error ''Error in heartbeat'' t1
               in if isInitial then Inr (updateOnlineStatus False now (w1, t2))
                  else Inr (w1, t2)))"


text \<open>\<^verbatim>\<open>clearInterval\<close> on a handle that may be \<^verbatim>\<open>null\<close>; the handle itself is kept.\<close>

definition clearInterval :: "nat option \<Rightarrow> tab \<Rightarrow> tab" where
  "clearInterval h t =
     (case h of None \<Rightarrow> t | Some k \<Rightarrow> t\<lparr>intervals := removeAll k (intervals t)\<rparr>)"

text \<open>
  \<^verbatim>\<open>startHeartbeat\<close>: clear the tab's previous interval, send the initial heartbeat,
  start a new interval and keep its handle. The requests of one handler are taken in
  the order in which the handler issues them.
\<close>

definition startHeartbeat :: "int \<Rightarrow> world \<times> tab \<Rightarrow> world \<times> tab" where
  "startHeartbeat now s =
     (case s of (w, t) \<Rightarrow>
        let t1 = clearInterval (heartbeatInterval t) t;
            (w2, t2) = (case sendHeartbeat True now (w, t1) of
                          Inr s' \<Rightarrow> s' | Inl (err, s') \<Rightarrow> s');
            h = next_handle t2
        in (w2, t2\<lparr>heartbeatInterval := Some h, intervals := h # intervals t2,
                   next_handle := h + 1\<rparr>))"

text \<open>The heartbeat of a tab runs when the handle it holds is among its running timers.\<close>

definition heartbeat_running :: "tab \<Rightarrow> bool" where
  "heartbeat_running t =
     (case heartbeatInterval t of None \<Rightarrow> False | Some h \<Rightarrow> h \<in> set (intervals t))"

text \<open>
  \<^verbatim>\<open>checkHeartbeatStatus\<close>, run every 30 seconds: read the row and, when it has a
  heartbeat older than 35000 ms and says online, call \<^verbatim>\<open>updateOnlineStatus(false)\<close>.
\<close>

definition checkHeartbeatStatus :: "int \<Rightarrow> world \<times> tab \<Rightarrow> world \<times> tab" where
  "checkHeartbeatStatus now s =
     (case s of (w, t) \<Rightarrow>
        if \<not> truthy (profile_id t) then (w, t)
        else
          (case await w of
             (Thrown, w1) \<Rightarrow> (w1, log_error ''Error checking heartbeat status'' t)
           | (Failed, w1) \<Rightarrow> (w1, t)
           | (Done, w1) \<Rightarrow>
               (case last_heartbeat (profiles_row w1) of
                  None \<Rightarrow> (w1, t)
                | Some lastHeartbeat' \<Rightarrow>
                    let timeSinceLastHeartbeat = now - lastHeartbeat'
                    in if timeSinceLastHeartbeat > 35000 \<and> is_online (profiles_row w1)
                       then updateOnlineStatus False now (w1, t)
                       else (w1, t))))"

text \<open>
  \<^verbatim>\<open>updateTabCount(increment)\<close> of the tab that drew \<^verbatim>\<open>tabId\<close>: it reads the
  registry from \<^verbatim>\<open>localStorage\<close>, stores or deletes its own entry, writes the registry
  back and counts its keys. The first tab goes online and starts its heartbeat; the
  last tab to leave goes offline and clears the interval whose handle it holds. Both
  status writes are issued without being awaited.
\<close>

definition count_keys :: "(string \<times> int) list \<Rightarrow> nat" where
  "count_keys tabs = length (remdups (map fst tabs))"

definition updateTabCount :: "string \<Rightarrow> bool \<Rightarrow> int \<Rightarrow> world \<times> tab \<Rightarrow> world \<times> tab" where
  "updateTabCount tabId increment now s =
     (case s of (w, t) \<Rightarrow>
        let tabs = (if increment then AList.update tabId now (active_tabs w)
                    else AList.delete tabId (active_tabs w));
            w1 = w\<lparr>active_tabs := tabs\<rparr>;
            t1 = t\<lparr>tabCount := count_keys tabs\<rparr>
        in if increment \<and> tabCount t1 = 1
           then startHeartbeat now (updateOnlineStatus True now (w1, t1))
           else if \<not> increment \<and> tabCount t1 = 0
           then (case updateOnlineStatus False now (w1, t1) of
                   (w2, t2) \<Rightarrow> (w2, clearInterval (heartbeatInterval t2) t2))
           else (w1, t1))"

text \<open>
  A tab right after mounting, with the initial values of its state cells and of
  \<^verbatim>\<open>onlineStatusRef\<close>; timer handles of a window start at 1.
\<close>

definition mounted_tab :: "string option \<Rightarrow> string \<Rightarrow> int \<Rightarrow> tab" where
  "mounted_tab pid path now =
     \<lparr>profile_id = pid, messages = [], unreadMessages = Map.empty, recentChats = [],
      deleteModal = None, messageMenu = None, pathname = path, dispatched = [],
      alerts = [], console_error = [], isOnline = False, lastHeartbeat = 0, tabCount = 0,
      heartbeatInterval = None, lastVisibilityChange = now, isMinimized = False,
      minimizeTimeout = None, intervals = [], next_handle = 1\<rparr>"

text \<open>
  A tab registers when its view mounts: \<^verbatim>\<open>setupMultiTabCoordination\<close> calls
  \<^verbatim>\<open>updateTabCount(true)\<close>. It unregisters in the cleanup of the mount effect, the
  only caller of \<^verbatim>\<open>updateTabCount(false)\<close>. Of that cleanup the steps that touch
  presence are embedded: it clears the tab's own heartbeat interval, then runs
  \<^verbatim>\<open>cleanupAndGoOffline\<close>: the registry update, and, when the registry read back is
  empty and there is a profile id, an awaited update
  \<^verbatim>\<open>{is_online: false, last_seen: now, last_heartbeat: null}\<close> whose result is not
  inspected; a rejection is caught and logged. (The cleanup also unsubscribes the
  channel and clears the polling, monitor and retry timers.)
\<close>

definition registerTab :: "string \<Rightarrow> int \<Rightarrow> world \<times> tab \<Rightarrow> world \<times> tab" where
  "registerTab tabId now s = updateTabCount tabId True now s"

definition unregisterTab :: "string \<Rightarrow> int \<Rightarrow> world \<times> tab \<Rightarrow> world \<times> tab" where
  "unregisterTab tabId now s =
     (case s of (w, t) \<Rightarrow>
        (case updateTabCount tabId False now (w, clearInterval (heartbeatInterval t) t) of
           (w2, t2) \<Rightarrow>
             if count_keys (active_tabs w2) = 0 \<and> truthy (profile_id t2)
             then (case await w2 of (r, w3) \<Rightarrow>
                     let w4 = w3\<lparr>issued := issued w3 @ [FullUpdate False (Some now) None]\<rparr>
                     in (case r of
                           Done \<Rightarrow> (w4\<lparr>profiles_row :=
                                          apply_update (FullUpdate False (Some now) None)
                                            (profiles_row w4)\<rparr>, t2)
                         | Failed \<Rightarrow> (w4, t2)
                         | Thrown \<Rightarrow> (w4, log_error ''Error during cleanup'' t2)))
             else (w2, t2)))"

text \<open>
  The four calls of the two-tab scenario, each in the tab that makes it: tab \<open>a\<close>
  registers, tab \<open>b\<close> registers, tab \<open>a\<close> unregisters, tab \<open>b\<close> unregisters. The
  result lists the shared world after each call and each tab after each of its calls, in
  the order of the calls.
\<close>

definition two_tabs ::
  "string \<Rightarrow> string \<Rightarrow> int \<Rightarrow> int \<Rightarrow> int \<Rightarrow> int \<Rightarrow> world \<Rightarrow> tab \<Rightarrow> tab \<Rightarrow>
     (world \<times> world \<times> world \<times> world) \<times> tab \<times> tab \<times> tab \<times> tab" where
  "two_tabs a b n1 n2 n3 n4 w0 ta tb =
     (case registerTab a n1 (w0, ta) of (w1, ta1) \<Rightarrow>
      case registerTab b n2 (w1, tb) of (w2, tb1) \<Rightarrow>
      case unregisterTab a n3 (w2, ta1) of (w3, ta2) \<Rightarrow>
      case unregisterTab b n4 (w3, tb1) of (w4, tb2) \<Rightarrow>
        ((w1, w2, w3, w4), ta1, tb1, ta2, tb2))"

section \<open>Opening the channel, and retrying\<close>

datatype connection = Connecting | Connected | Disconnected

text \<open>
  What the retry logic of one mounted view reads and writes: \<^verbatim>\<open>mountedRef.current\<close>,
  whether \<^verbatim>\<open>profile?.id\<close> is set, the state cell \<^verbatim>\<open>connectionStatus\<close>, the counter
  \<^verbatim>\<open>initializationAttempts\<close> of the mount effect, and its two retry timers:
  \<^verbatim>\<open>reconnectTimeout\<close>, which \<^verbatim>\<open>initializeChat\<close> sets, and the timer of the
  reconnection effect. \<^verbatim>\<open>timeouts\<close> lists the delays of all retry timers started, in
  order; \<^verbatim>\<open>view_errors\<close> is what went to \<^verbatim>\<open>console.error\<close>.
\<close>

record view =
  mountedRef :: bool
  has_profile_id :: bool
  connectionStatus :: connection
  initializationAttempts :: nat
  reconnectTimeout :: bool
  reconnect_timer :: bool
  timeouts :: "nat list"
  view_errors :: "string list"

text \<open>
  \<^verbatim>\<open>setConnectionStatus\<close> together with the reconnection effect, which depends on
  \<^verbatim>\<open>connectionStatus\<close>: a value equal to the current one changes nothing; a new value
  re-runs the effect, whose cleanup clears the timer of its previous run and whose body,
  when the new status is disconnected, starts a timer of 3000 ms. Each change of the
  status is taken to be rendered before the next one arrives.
\<close>

definition setConnectionStatus :: "connection \<Rightarrow> view \<Rightarrow> view" where
  "setConnectionStatus status v =
     (if status = connectionStatus v then v
      else if status = Disconnected
      then v\<lparr>connectionStatus := Disconnected, reconnect_timer := True,
             timeouts := timeouts v @ [3000]\<rparr>
      else v\<lparr>connectionStatus := status, reconnect_timer := False\<rparr>)"

definition view_error :: "string \<Rightarrow> view \<Rightarrow> view" where
  "view_error msg v = v\<lparr>view_errors := view_errors v @ [msg]\<rparr>"

text \<open>
  \<^verbatim>\<open>fetchInitialData\<close>: its \<^verbatim>\<open>try\<close> block throws when the message query returns an
  error; its own \<^verbatim>\<open>catch\<close> logs that and the function returns normally. The rows it
  loads are not needed here.
\<close>

definition fetchInitialData_try :: "bool \<Rightarrow> view \<Rightarrow> (string \<times> view) + view" where
  "fetchInitialData_try messagesError v =
     (if messagesError then Inl (''messagesError'', v) else Inr v)"

definition fetchInitialData :: "bool \<Rightarrow> view \<Rightarrow> (string \<times> view) + view" where
  "fetchInitialData messagesError v =
     (case fetchInitialData_try messagesError v of
        Inr v1 \<Rightarrow> Inr v1
      | Inl (err, v1) \<Rightarrow> Inr (view_error ''Error fetching initial data'' v1))"

text \<open>
  How one attempt to open the channel ends: the subscription reports \<^verbatim>\<open>SUBSCRIBED\<close>,
  it reports another status, or something inside the \<^verbatim>\<open>try\<close> block of
  \<^verbatim>\<open>setupRealtimeSubscription\<close> throws before the subscription is made.
\<close>

datatype open_outcome = Subscribed | ErrorStatus | Rejected

text \<open>
  \<^verbatim>\<open>setupRealtimeSubscription\<close> returns at once when the view is unmounted or has no
  profile id. Its \<^verbatim>\<open>try\<close> block sets the status to connecting, replaces the previous
  channel and subscribes; its own \<^verbatim>\<open>catch\<close> logs and sets the status to disconnected.
  The callback given to \<^verbatim>\<open>subscribe\<close> runs later: connected on \<^verbatim>\<open>SUBSCRIBED\<close>,
  disconnected on every other status.
\<close>

definition setupRealtimeSubscription_try :: "open_outcome \<Rightarrow> view \<Rightarrow> (string \<times> view) + view" where
  "setupRealtimeSubscription_try outcome v =
     (let v1 = setConnectionStatus Connecting v
      in if outcome = Rejected then Inl (''rejected'', v1) else Inr v1)"

definition setupRealtimeSubscription :: "open_outcome \<Rightarrow> view \<Rightarrow> (string \<times> view) + view" where
  "setupRealtimeSubscription outcome v =
     (if \<not> mountedRef v \<or> \<not> has_profile_id v then Inr v
      else
        (case setupRealtimeSubscription_try outcome v of
           Inr v1 \<Rightarrow> Inr v1
         | Inl (err, v1) \<Rightarrow>
             Inr (setConnectionStatus Disconnected (view_error ''Error setting up real-time'' v1))))"

definition subscribe_callback :: "open_outcome \<Rightarrow> view \<Rightarrow> view" where
  "subscribe_callback outcome v =
     (case outcome of
        Subscribed \<Rightarrow> setConnectionStatus Connected v
      | ErrorStatus \<Rightarrow> setConnectionStatus Disconnected v
      | Rejected \<Rightarrow> v)"

definition maxAttempts :: nat where
  "maxAttempts = 3"

text \<open>\<^verbatim>\<open>Math.min(1000 * Math.pow(2, initializationAttempts), 10000)\<close>, in ms.\<close>

definition retry_delay :: "nat \<Rightarrow> nat" where
  "retry_delay attempts = min (1000 * 2 ^ attempts) 10000"

text \<open>
  \<^verbatim>\<open>initializeChat\<close> of the mount effect: \<^verbatim>\<open>fetchInitialData\<close>, then
  \<^verbatim>\<open>setupRealtimeSubscription\<close>, then the counter is reset. Its \<^verbatim>\<open>catch\<close> increments
  the counter first; below \<^verbatim>\<open>maxAttempts\<close>, and while the view is mounted, it starts
  \<^verbatim>\<open>setTimeout(initializeChat, delay)\<close> with the delay for the new counter value;
  otherwise it sets the status to disconnected.
\<close>

definition initializeChat :: "bool \<Rightarrow> open_outcome \<Rightarrow> view \<Rightarrow> view" where
  "initializeChat messagesError outcome v =
     (case (case fetchInitialData messagesError v of
              Inl e \<Rightarrow> Inl e
            | Inr v1 \<Rightarrow> setupRealtimeSubscription outcome v1) of
        Inr v2 \<Rightarrow> v2\<lparr>initializationAttempts := 0\<rparr>
      | Inl (err, v2) \<Rightarrow>
          let v3 = (view_error ''Error initializing chat'' v2)
                     \<lparr>initializationAttempts := initializationAttempts v2 + 1\<rparr>
          in if initializationAttempts v3 < maxAttempts \<and> mountedRef v3
             then v3\<lparr>reconnectTimeout := True,
                     timeouts := timeouts v3 @ [retry_delay (initializationAttempts v3)]\<rparr>
             else setConnectionStatus Disconnected v3)"

text \<open>
  The first attempt of a view: the mount effect calls \<^verbatim>\<open>initializeChat\<close>, and when the
  subscription was made its callback reports. A later attempt: the timer of the
  reconnection effect fires and, if the view is still mounted, calls
  \<^verbatim>\<open>setupRealtimeSubscription\<close>; without a pending timer nothing happens.
\<close>

definition subscribed_to :: "open_outcome \<Rightarrow> view \<Rightarrow> bool" where
  "subscribed_to outcome v = (mountedRef v \<and> has_profile_id v \<and> outcome \<noteq> Rejected)"

definition first_attempt :: "bool \<Rightarrow> open_outcome \<Rightarrow> view \<Rightarrow> view" where
  "first_attempt messagesError outcome v =
     (let v1 = initializeChat messagesError outcome v
      in if subscribed_to outcome v then subscribe_callback outcome v1 else v1)"

definition reconnect_timer_fires :: "open_outcome \<Rightarrow> view \<Rightarrow> view" where
  "reconnect_timer_fires outcome v =
     (if \<not> reconnect_timer v then v
      else
        let v1 = v\<lparr>reconnect_timer := False\<rparr>
        in if \<not> mountedRef v1 then v1
           else
             (case setupRealtimeSubscription outcome v1 of
                Inl (err, v2) \<Rightarrow> v2
              | Inr v2 \<Rightarrow> if subscribed_to outcome v1 then subscribe_callback outcome v2 else v2))"

text \<open>
  The attempts of one view in order, \<open>outcomes\<close> telling how each one ends: the first
  attempt at mount, every further one from the reconnection timer.
\<close>

definition attempts :: "bool \<Rightarrow> open_outcome list \<Rightarrow> view \<Rightarrow> view" where
  "attempts messagesError outcomes v =
     (case outcomes of
        [] \<Rightarrow> v
      | first # later \<Rightarrow> fold reconnect_timer_fires later (first_attempt messagesError first v))"

text \<open>A view at mount: status connecting, counter zero, no timer.\<close>

definition on_mount :: view where
  "on_mount = \<lparr>mountedRef = True, has_profile_id = True, connectionStatus = Connecting,
     initializationAttempts = 0, reconnectTimeout = False, reconnect_timer = False,
     timeouts = [], view_errors = []\<rparr>"


text \<open>A world in which the user is offline and no tab is registered.\<close>

definition offline_world :: world where
  "offline_world =
     \<lparr>profiles_row = \<lparr>is_online = False, last_seen = None, last_heartbeat = None\<rparr>,
      issued = [], db_messages = [], storage_objects = [], active_tabs = [],
      ls_unread_messages = None, ls_deletions = [], net = []\<rparr>"

text \<open>
  A world whose row says online with a heartbeat at time 0, a tab that believes it is
  online and runs its heartbeat, and the same world when the next read succeeds and the
  update after it is rejected.
\<close>

definition online_world :: world where
  "online_world = offline_world
     \<lparr>profiles_row := \<lparr>is_online = True, last_seen = None, last_heartbeat = Some 0\<rparr>\<rparr>"

definition online_tab :: tab where
  "online_tab = (mounted_tab (Some ''u1'') ''/chat/c1'' 0)
     \<lparr>isOnline := True, tabCount := 1, heartbeatInterval := Some 1, intervals := [1],
      next_handle := 2\<rparr>"


text \<open>A tab that shows the stored row and has its delete dialog open on it.\<close>

definition dialog_tab :: tab where
  "dialog_tab = (mounted_tab (Some ''u1'') ''/chat/c1'' 0)
     \<lparr>messages := [stored_hi],
      deleteModal := Some \<lparr>dm_messageId = ''m1'', dm_isOwnMessage = True\<rparr>,
      messageMenu := Some ''m1''\<rparr>"

definition stored_world :: world where
  "stored_world = offline_world\<lparr>db_messages := [stored_hi]\<rparr>"

text \<open>The race of the sender's own row: the change feed delivers it before the insert returns.\<close>

definition send_race :: "store_event list" where
  "send_race = [AppendOptimistic draft_hi, RemoteInsert stored_hi,
                Reconcile (msg_id draft_hi) stored_hi]"

section \<open>The message list under sends, inserts and deletes\<close>

lemma run_send_race: "run_events send_race [] = [stored_hi, stored_hi]"
  by (simp add: send_race_def run_events_def appendOptimistic_def applyRemoteInsert_def
      reconcile_def draft_hi_def stored_hi_def)

text \<open>
  The two feed handlers keep the ids of the list distinct, and so does the send whose
  row arrives from the feed only after the insert has returned.
\<close>

lemma remote_events_keep_distinct:
  assumes "distinct (ids prev)"
  shows "distinct (ids (applyRemoteInsert m prev))" and "distinct (ids (applyRemoteDelete i prev))"
  using assms
  by (auto simp: ids_def applyRemoteInsert_def applyRemoteDelete_def list_ex_iff distinct_map_filter)

lemma send_then_feed_single_entry:
  "run_events [AppendOptimistic draft_hi, Reconcile (msg_id draft_hi) stored_hi,
               RemoteInsert stored_hi] [] = [stored_hi]"
  by (simp add: run_events_def appendOptimistic_def applyRemoteInsert_def reconcile_def
      draft_hi_def stored_hi_def)

text \<open>
  C1. The claim: no run of remote inserts, remote deletes and reconciliations leaves two
  entries with one id in the list, and an optimistic send that is reconciled yields one
  entry even when the remote copy of the insert arrives in between. The code at that
  very run: the draft is appended under its temporary id, the INSERT handler finds no
  entry with the stored id and appends the stored row, and the reconciliation turns the
  draft into a second copy of the stored row. The list ends with two entries of one id.
\<close>

theorem optimistic_send_race_duplicates_id:
  "run_events [AppendOptimistic draft_hi, RemoteInsert stored_hi,
               Reconcile (msg_id draft_hi) stored_hi] [] = [stored_hi, stored_hi]
   \<and> \<not> distinct (ids (run_events [AppendOptimistic draft_hi, RemoteInsert stored_hi,
                                  Reconcile (msg_id draft_hi) stored_hi] []))"
  by (simp add: run_events_def appendOptimistic_def applyRemoteInsert_def reconcile_def
      draft_hi_def stored_hi_def ids_def)

text \<open>
  C2, as stated: a remote delete of an id that runs before the reconciliation of the
  pending entry confirmed under that id keeps the message out of the list. In the code
  the delete filters by the stored id, the pending entry carries the temporary id and
  stays, and the reconciliation puts the stored row into the list.
\<close>

theorem delete_before_reconcile_reappears:
  "msg_id stored_hi \<in> set (ids (run_events
      [AppendOptimistic draft_hi, RemoteDelete (msg_id stored_hi),
       Reconcile (msg_id draft_hi) stored_hi] []))"
  by (simp add: run_events_def appendOptimistic_def applyRemoteDelete_def reconcile_def
      draft_hi_def stored_hi_def ids_def)

text \<open>
  C2, amended: a deletion wins over a reconciliation for the same id when it is applied
  after it: then no entry with that id is left. Applied before the reconciliation of a
  pending entry whose temporary id differs from the id, it does not suppress the
  confirmed message: the reconciliation replaces the pending entry and the confirmed
  message is in the list.
\<close>

theorem delete_wins_after_reconcile_only:
  assumes "msg_id confirmed = i" and "tempId \<noteq> i" and "tempId \<in> set (ids prev)"
  shows "i \<notin> set (ids (applyRemoteDelete i (reconcile tempId confirmed prev)))
       \<and> confirmed \<in> set (reconcile tempId confirmed (applyRemoteDelete i prev))"
proof
  show "i \<notin> set (ids (applyRemoteDelete i (reconcile tempId confirmed prev)))"
    by (auto simp: ids_def applyRemoteDelete_def)
  from assms(3) obtain m where "m \<in> set prev" and "msg_id m = tempId"
    by (auto simp: ids_def)
  with assms(2) show "confirmed \<in> set (reconcile tempId confirmed (applyRemoteDelete i prev))"
    by (force simp: reconcile_def applyRemoteDelete_def)
qed

theorem delete_wins_after_reconcile_only_witness:
  "''m1'' \<notin> set (ids (applyRemoteDelete ''m1'' (reconcile (msg_id draft_hi) stored_hi [draft_hi])))
   \<and> stored_hi \<in> set (reconcile (msg_id draft_hi) stored_hi (applyRemoteDelete ''m1'' [draft_hi]))"
proof -
  have h1: "msg_id stored_hi = ''m1''" by (simp add: stored_hi_def)
  have h2: "msg_id draft_hi \<noteq> ''m1''" by (simp add: draft_hi_def)
  have h3: "msg_id draft_hi \<in> set (ids [draft_hi])" by (simp add: ids_def)
  show ?thesis using delete_wins_after_reconcile_only [OF h1 h2 h3] .
qed

text \<open>
  C7, as stated: a remote delete removes at most one entry. The delete filters out
  every entry with the id; from the list that the send race leaves, two entries go.
\<close>

theorem remote_delete_removes_two_entries:
  "length (run_events send_race []) = 2
   \<and> applyRemoteDelete (msg_id stored_hi) (run_events send_race []) = []"
  by (simp add: run_send_race applyRemoteDelete_def)

lemma applyRemoteDelete_length:
  "length (applyRemoteDelete i prev) + count_list (ids prev) i = length prev"
  by (induction prev) (auto simp: applyRemoteDelete_def ids_def)

lemma distinct_count_le_1: "distinct ys \<Longrightarrow> count_list ys y \<le> 1"
  by (induction ys) (auto simp: count_list_0_iff)

text \<open>
  C7, amended: both remote handlers are idempotent. A remote insert changes nothing when
  an entry with the id is listed. A remote delete, from the change feed or from a
  cross-tab deletion record, removes every entry with the id, which is at most one entry
  when the ids in the list are distinct; applied again it changes nothing.
\<close>

theorem remote_handlers_idempotent:
  "applyRemoteInsert m (applyRemoteInsert m prev) = applyRemoteInsert m prev
   \<and> (msg_id m \<in> set (ids prev) \<longrightarrow> applyRemoteInsert m prev = prev)
   \<and> applyRemoteDelete i (applyRemoteDelete i prev) = applyRemoteDelete i prev
   \<and> length (applyRemoteDelete i prev) + count_list (ids prev) i = length prev
   \<and> (distinct (ids prev) \<longrightarrow> length prev \<le> length (applyRemoteDelete i prev) + 1)"
proof (intro conjI impI)
  show "applyRemoteInsert m (applyRemoteInsert m prev) = applyRemoteInsert m prev"
    by (simp add: applyRemoteInsert_def list_ex_iff)
  show "applyRemoteInsert m prev = prev" if "msg_id m \<in> set (ids prev)"
    using that by (auto simp: applyRemoteInsert_def list_ex_iff ids_def)
  show "applyRemoteDelete i (applyRemoteDelete i prev) = applyRemoteDelete i prev"
    by (simp add: applyRemoteDelete_def)
  show "length (applyRemoteDelete i prev) + count_list (ids prev) i = length prev"
    by (rule applyRemoteDelete_length)
  show "length prev \<le> length (applyRemoteDelete i prev) + 1" if "distinct (ids prev)"
    using applyRemoteDelete_length [of i prev] distinct_count_le_1 [OF that, of i] by simp
qed

theorem remote_handlers_idempotent_witness:
  "msg_id stored_hi \<in> set (ids [draft_hi, stored_hi]) \<and> distinct (ids [draft_hi, stored_hi])
   \<and> applyRemoteInsert stored_hi [draft_hi, stored_hi] = [draft_hi, stored_hi]
   \<and> applyRemoteDelete ''m1'' (applyRemoteDelete ''m1'' [draft_hi, stored_hi]) = [draft_hi]
   \<and> length [draft_hi, stored_hi] \<le> length (applyRemoteDelete ''m1'' [draft_hi, stored_hi]) + 1"
proof -
  have h1: "msg_id stored_hi \<in> set (ids [draft_hi, stored_hi])" by (simp add: ids_def)
  have h2: "distinct (ids [draft_hi, stored_hi])"
    by (simp add: ids_def draft_hi_def stored_hi_def)
  have d: "applyRemoteDelete ''m1'' [draft_hi, stored_hi] = [draft_hi]"
    by (simp add: applyRemoteDelete_def draft_hi_def stored_hi_def)
  show ?thesis
    using remote_handlers_idempotent [of stored_hi "[draft_hi, stored_hi]" "''m1''"] h1 h2 d
    by simp
qed

section \<open>Unread counters\<close>

lemma includes_str_sublist: "includes_str s pat = sublist pat s"
  by (induction s) (auto simp: sublist_Cons_right)

lemma onInsertEvent_messages:
  "messages (snd (onInsertEvent chatId newMessage (w, t))) = applyRemoteInsert newMessage (messages t)"
  by (auto simp: onInsertEvent_def incrementUnreadCount_def applyRemoteInsert_def Let_def
      split: prod.splits)

lemma onInsertEvent_known_id:
  "list_ex (\<lambda>msg. msg_id msg = msg_id newMessage) (messages t) \<Longrightarrow>
   onInsertEvent chatId newMessage (w, t) = (w, t)"
  by (simp add: onInsertEvent_def)

text \<open>
  C8. An insert event for the chat of the view (the subscription filters by
  \<^verbatim>\<open>chat_id\<close>; the handler exists only with a profile id) whose id is not listed yet:
  the unread counter of the message's chat grows by one exactly when the path does not
  contain \<^verbatim>\<open>/chat/<chatId>\<close> and the sender is not the local user; in every other case
  the unread mapping is the one before. The message is appended in both cases.
\<close>

theorem insert_event_unread_count:
  assumes "\<not> list_ex (\<lambda>msg. msg_id msg = msg_id newMessage) (messages t)"
    and "truthy (profile_id t)" and "chat_id newMessage = chatId" and "chatId \<noteq> []"
  shows "unreadMessages (snd (onInsertEvent chatId newMessage (w, t))) =
           (if \<not> includes_str (pathname t) (''/chat/'' @ chatId)
               \<and> Some (sender_id newMessage) \<noteq> profile_id t
            then (unreadMessages t)(chat_id newMessage \<mapsto>
                   (case unreadMessages t (chat_id newMessage) of None \<Rightarrow> 0 | Some k \<Rightarrow> k) + 1)
            else unreadMessages t)
       \<and> messages (snd (onInsertEvent chatId newMessage (w, t))) = messages t @ [newMessage]"
  using assms
  by (auto simp: onInsertEvent_def incrementUnreadCount_def Let_def split: prod.splits)

theorem insert_event_unread_count_witness:
  "unreadMessages (snd (onInsertEvent ''c1'' stored_hi
      (offline_world, mounted_tab (Some ''u2'') ''/home'' 0))) ''c1'' = Some 1
   \<and> unreadMessages (snd (onInsertEvent ''c1'' stored_hi
      (offline_world, mounted_tab (Some ''u2'') ''/chat/c1'' 0))) ''c1'' = None"
proof -
  have h1: "\<not> list_ex (\<lambda>msg. msg_id msg = msg_id stored_hi)
              (messages (mounted_tab (Some ''u2'') path 0))" for path
    by (simp add: mounted_tab_def)
  have h2: "truthy (profile_id (mounted_tab (Some ''u2'') path 0))" for path
    by (simp add: mounted_tab_def truthy_def)
  have h3: "chat_id stored_hi = ''c1''" by (simp add: stored_hi_def)
  have h4: "''c1'' \<noteq> []" by simp
  have a: "\<not> includes_str ''/home'' (''/chat/'' @ ''c1'')" by simp
  have b: "includes_str ''/chat/c1'' (''/chat/'' @ ''c1'')" by simp
  have c: "Some (sender_id stored_hi) \<noteq> profile_id (mounted_tab (Some ''u2'') path 0)" for path
    by (simp add: stored_hi_def mounted_tab_def)
  have d: "pathname (mounted_tab (Some ''u2'') path 0) = path
           \<and> unreadMessages (mounted_tab (Some ''u2'') path 0) = Map.empty" for path
    by (simp add: mounted_tab_def)
  show ?thesis
    using insert_event_unread_count [OF h1 [of "''/home''"] h2 h3 h4, where w = offline_world]
      insert_event_unread_count [OF h1 [of "''/chat/c1''"] h2 h3 h4, where w = offline_world]
      a b c d h3
    by simp
qed

section \<open>Delete for me\<close>

lemma find_msg_id_None:
  "(find (\<lambda>msg. msg_id msg = i) prev = None) = (i \<notin> set (ids prev))"
  by (auto simp: find_None_iff ids_def)

text \<open>
  C10. \<^verbatim>\<open>handleDeleteMessage(false)\<close> leaves the world outside the tab as it is: no
  request is sent, so the message table and the media store keep their content, and no
  deletion record is written to \<^verbatim>\<open>localStorage\<close>. No \<^verbatim>\<open>messageDeleted\<close> event is
  dispatched and no alert is raised. In the tab, the call either returns early and
  changes nothing, or removes the entries with the dialog's message id from the local
  list and closes the delete dialog and the message menu.
\<close>

theorem delete_for_me_is_local:
  "fst (handleDeleteMessage chatId False now (w, t)) = w
   \<and> dispatched (snd (handleDeleteMessage chatId False now (w, t))) = dispatched t
   \<and> alerts (snd (handleDeleteMessage chatId False now (w, t))) = alerts t
   \<and> snd (handleDeleteMessage chatId False now (w, t)) =
       (case deleteModal t of
          None \<Rightarrow> t
        | Some dm \<Rightarrow>
            if profile_id t \<noteq> None \<and> dm_messageId dm \<in> set (ids (messages t))
            then t\<lparr>messages := applyRemoteDelete (dm_messageId dm) (messages t),
                   deleteModal := None, messageMenu := None\<rparr>
            else t)"
proof -
  have "handleDeleteMessage chatId False now (w, t) =
     (w, case deleteModal t of
           None \<Rightarrow> t
         | Some dm \<Rightarrow>
             if profile_id t \<noteq> None \<and> dm_messageId dm \<in> set (ids (messages t))
             then t\<lparr>messages := applyRemoteDelete (dm_messageId dm) (messages t),
                    deleteModal := None, messageMenu := None\<rparr>
             else t)"
  proof (cases "deleteModal t")
    case None
    then show ?thesis by (simp add: handleDeleteMessage_def)
  next
    case (Some dm)
    show ?thesis
    proof (cases "find (\<lambda>msg. msg_id msg = dm_messageId dm) (messages t)")
      case None
      then have "dm_messageId dm \<notin> set (ids (messages t))" by (simp add: find_msg_id_None)
      with None Some show ?thesis by (simp add: handleDeleteMessage_def)
    next
      case (Some messageToDelete)
      then have "dm_messageId dm \<in> set (ids (messages t))"
        using find_msg_id_None [of "dm_messageId dm" "messages t"] by simp
      with Some \<open>deleteModal t = Some dm\<close> show ?thesis
        by (simp add: handleDeleteMessage_def remove_locally_def applyRemoteDelete_def)
    qed
  qed
  then show ?thesis
    by (simp split: option.splits)
qed

theorem delete_for_me_is_local_witness:
  "handleDeleteMessage ''c1'' False 5000 (stored_world, dialog_tab) =
     (stored_world, dialog_tab\<lparr>messages := [], deleteModal := None, messageMenu := None\<rparr>)
   \<and> db_messages (fst (handleDeleteMessage ''c1'' False 5000 (stored_world, dialog_tab))) = [stored_hi]"
proof -
  have m: "messages dialog_tab = [stored_hi]"
    and dm: "deleteModal dialog_tab = Some \<lparr>dm_messageId = ''m1'', dm_isOwnMessage = True\<rparr>"
    and p: "profile_id dialog_tab \<noteq> None"
    by (simp_all add: dialog_tab_def mounted_tab_def)
  have i: "''m1'' \<in> set (ids [stored_hi])" by (simp add: ids_def stored_hi_def)
  have d: "applyRemoteDelete ''m1'' [stored_hi] = []"
    by (simp add: applyRemoteDelete_def stored_hi_def)
  have s: "db_messages stored_world = [stored_hi]" by (simp add: stored_world_def)
  show ?thesis
    using delete_for_me_is_local [of "''c1''" 5000 stored_world dialog_tab] m dm p i d s
    by (simp add: prod_eq_iff)
qed

text \<open>For contrast, delete for everyone on the same state does reach the world.\<close>

lemma delete_for_everyone_reaches_world:
  "db_messages (fst (handleDeleteMessage ''c1'' True 5000 (stored_world, dialog_tab))) = []
   \<and> map fst (ls_deletions (fst (handleDeleteMessage ''c1'' True 5000 (stored_world, dialog_tab))))
       = [''m1'']
   \<and> length (dispatched (snd (handleDeleteMessage ''c1'' True 5000 (stored_world, dialog_tab)))) = 1"
  by (simp add: handleDeleteMessage_def remove_media_def remove_locally_def dialog_tab_def
      mounted_tab_def stored_world_def offline_world_def stored_hi_def truthy_def await_def
      applyRemoteDelete_def Let_def)

section \<open>Presence: what the handlers do to the row and to the tab\<close>

lemma await_frame:
  "await w = (r, w1) \<Longrightarrow> profiles_row w1 = profiles_row w \<and> issued w1 = issued w \<and> active_tabs w1 = active_tabs w
     \<and> db_messages w1 = db_messages w \<and> storage_objects w1 = storage_objects w"
  by (auto simp: await_def split: list.splits)

lemma await_empty: "net w = [] \<Longrightarrow> await w = (Done, w)"
  by (simp add: await_def)


lemma await_net_empty: "net w = [] \<Longrightarrow> await w = (r, w1) \<Longrightarrow> net w1 = []"
  by (simp add: await_def)


lemma updateOnlineStatus_result:
  assumes "truthy (profile_id t)" "await w = (r, w1)"
  shows "updateOnlineStatus b now (w, t) =
     (if r = Done
      then (w1\<lparr>issued := issued w @ [updateData b now],
               profiles_row := apply_update (updateData b now) (profiles_row w)\<rparr>, t\<lparr>isOnline := b\<rparr>)
      else (w1\<lparr>issued := issued w @ [updateData b now]\<rparr>, log_error ''Error updating online status'' t))"
  using assms await_frame[OF assms(2)]
  by (cases r) (auto simp: updateOnlineStatus_def Let_def)


lemma updateOnlineStatus_succeeds:
  assumes "truthy (profile_id t)" "net w = []"
  shows "updateOnlineStatus b now (w, t) =
     (w\<lparr>issued := issued w @ [updateData b now],
        profiles_row := apply_update (updateData b now) (profiles_row w)\<rparr>, t\<lparr>isOnline := b\<rparr>)"
  using updateOnlineStatus_result[OF assms(1) await_empty[OF assms(2)]] by simp















text \<open>
  C9. A write through \<^verbatim>\<open>updateOnlineStatus\<close> sends one of two shapes: online with
  \<^verbatim>\<open>last_seen\<close> null and \<^verbatim>\<open>last_heartbeat\<close> the current time, or offline with
  \<^verbatim>\<open>last_seen\<close> the current time and \<^verbatim>\<open>last_heartbeat\<close> null. When the update
  succeeds the row has exactly that shape, so a row written online has no
  \<^verbatim>\<open>last_seen\<close>; when it does not succeed the row is the one before.
\<close>

theorem updateOnlineStatus_write_shape:
  assumes "truthy (profile_id t)" and "updateOnlineStatus online now (w, t) = (w', t')"
  shows "issued w' = issued w @ [FullUpdate online (if online then None else Some now)
                                              (if online then Some now else None)]
       \<and> (fst (await w) = Done \<longrightarrow>
            profiles_row w' = \<lparr>is_online = online,
                                last_seen = (if online then None else Some now),
                                last_heartbeat = (if online then Some now else None)\<rparr>
            \<and> (is_online (profiles_row w') \<longrightarrow> last_seen (profiles_row w') = None))
       \<and> (fst (await w) \<noteq> Done \<longrightarrow> profiles_row w' = profiles_row w)"
proof -
  obtain r w1 where a: "await w = (r, w1)" by (cases "await w") auto
  have f: "profiles_row w1 = profiles_row w" using await_frame [OF a] by simp
  show ?thesis
    using assms(2) updateOnlineStatus_result [OF assms(1) a, of online now] a f
    by (auto simp: updateData_def split: if_splits)
qed

theorem updateOnlineStatus_write_shape_witness:
  "profiles_row (fst (updateOnlineStatus True 1000 (offline_world, online_tab)))
     = \<lparr>is_online = True, last_seen = None, last_heartbeat = Some 1000\<rparr>
   \<and> profiles_row (fst (updateOnlineStatus False 2000 (online_world, online_tab)))
     = \<lparr>is_online = False, last_seen = Some 2000, last_heartbeat = None\<rparr>"
proof -
  have p: "truthy (profile_id online_tab)"
    by (simp add: online_tab_def mounted_tab_def truthy_def)
  have a: "fst (await offline_world) = Done" "fst (await online_world) = Done"
    by (simp_all add: await_def offline_world_def online_world_def)
  obtain w1 t1 where e1: "updateOnlineStatus True 1000 (offline_world, online_tab) = (w1, t1)"
    by (metis surj_pair)
  obtain w2 t2 where e2: "updateOnlineStatus False 2000 (online_world, online_tab) = (w2, t2)"
    by (metis surj_pair)
  show ?thesis
    using updateOnlineStatus_write_shape [OF p e1] updateOnlineStatus_write_shape [OF p e2] a e1 e2
    by simp
qed

text \<open>
  C5. The row says online and its heartbeat is more than 35000 ms old; the read and the
  update of the next \<^verbatim>\<open>checkHeartbeatStatus\<close> succeed. That call sends exactly one
  update, the offline write, and the row is offline with no heartbeat. A second call, at
  any later time and however its read ends, sends no update and leaves the row as it is.
\<close>

theorem stale_heartbeat_marked_offline_once:
  assumes pid: "truthy (profile_id t)"
    and on: "is_online (profiles_row w)"
    and hb: "last_heartbeat (profiles_row w) = Some beat"
    and old: "now1 - beat > 35000"
    and ok1: "fst (await w) = Done" and ok2: "fst (await (snd (await w))) = Done"
    and r1: "checkHeartbeatStatus now1 (w, t) = (w1, t1)"
    and r2: "checkHeartbeatStatus now2 (w1, t1) = (w2, t2)"
  shows "issued w1 = issued w @ [FullUpdate False (Some now1) None]
       \<and> profiles_row w1 = \<lparr>is_online = False, last_seen = Some now1, last_heartbeat = None\<rparr>
       \<and> issued w2 = issued w1 \<and> profiles_row w2 = profiles_row w1"
proof -
  obtain wa where a: "await w = (Done, wa)" using ok1 by (cases "await w") auto
  obtain wb where b: "await wa = (Done, wb)" using ok2 a by (cases "await wa") auto
  have fa: "profiles_row wa = profiles_row w" "issued wa = issued w"
    using await_frame [OF a] by auto
  have s1: "checkHeartbeatStatus now1 (w, t) = updateOnlineStatus False now1 (wa, t)"
    using pid on hb old a fa by (simp add: checkHeartbeatStatus_def Let_def)
  from r1 s1 updateOnlineStatus_result [OF pid b, of False now1]
  have w1: "w1 = wb\<lparr>issued := issued wa @ [updateData False now1],
              profiles_row := apply_update (updateData False now1) (profiles_row wa)\<rparr>"
    and t1: "t1 = t\<lparr>isOnline := False\<rparr>" by auto
  have i1: "issued w1 = issued w @ [FullUpdate False (Some now1) None]"
    using w1 fa by (simp add: updateData_def)
  have p1: "profiles_row w1 = \<lparr>is_online = False, last_seen = Some now1, last_heartbeat = None\<rparr>"
    using w1 by (simp add: updateData_def)
  obtain rc wc where c: "await w1 = (rc, wc)" by (cases "await w1") auto
  have fc: "profiles_row wc = profiles_row w1" "issued wc = issued w1"
    using await_frame [OF c] by auto
  have "checkHeartbeatStatus now2 (w1, t1) =
          (wc, if rc = Thrown then log_error ''Error checking heartbeat status'' t1 else t1)"
    using c fc p1 t1 pid by (cases rc) (simp_all add: checkHeartbeatStatus_def)
  with r2 have "w2 = wc" by simp
  with fc i1 p1 show ?thesis by simp
qed

theorem stale_heartbeat_marked_offline_once_witness:
  "(case checkHeartbeatStatus 36000 (online_world, online_tab) of (w1, t1) \<Rightarrow>
      case checkHeartbeatStatus 66000 (w1, t1) of (w2, t2) \<Rightarrow>
        issued w1 = [FullUpdate False (Some 36000) None] \<and> \<not> is_online (profiles_row w1)
        \<and> issued w2 = [FullUpdate False (Some 36000) None] \<and> \<not> is_online (profiles_row w2))"
proof -
  have pid: "truthy (profile_id online_tab)"
    by (simp add: online_tab_def mounted_tab_def truthy_def)
  have on: "is_online (profiles_row online_world)"
    and hb: "last_heartbeat (profiles_row online_world) = Some 0"
    and iss: "issued online_world = []"
    by (simp_all add: online_world_def offline_world_def)
  have old: "(36000::int) - 0 > 35000" by simp
  have ok1: "fst (await online_world) = Done"
    and ok2: "fst (await (snd (await online_world))) = Done"
    by (simp_all add: await_def online_world_def offline_world_def)
  obtain w1 t1 where r1: "checkHeartbeatStatus 36000 (online_world, online_tab) = (w1, t1)"
    by (metis surj_pair)
  obtain w2 t2 where r2: "checkHeartbeatStatus 66000 (w1, t1) = (w2, t2)"
    by (metis surj_pair)
  show ?thesis
    using stale_heartbeat_marked_offline_once [OF pid on hb old ok1 ok2 r1 r2] r1 r2 iss
    by simp
qed

text \<open>
  The heartbeat that \<^verbatim>\<open>startHeartbeat\<close> sends at once is treated differently from a
  tick: when one of its requests is rejected the tab writes itself offline.
\<close>

lemma initial_heartbeat_rejected_goes_offline:
  "sendHeartbeat True 20000 (online_world\<lparr>net := [Thrown]\<rparr>, online_tab) =
     Inr (online_world\<lparr>issued := [updateData False 20000],
            profiles_row := \<lparr>is_online = False, last_seen = Some 20000, last_heartbeat = None\<rparr>\<rparr>,
          (log_error ''Error in heartbeat'' online_tab)\<lparr>isOnline := False\<rparr>)"
  by (simp add: sendHeartbeat_def sendHeartbeat_try_def updateOnlineStatus_def await_def
      online_world_def offline_world_def online_tab_def mounted_tab_def truthy_def
      log_error_def updateData_def)






section \<open>The tab registry\<close>

lemma clearInterval_fields:
  "profile_id (clearInterval h t) = profile_id t"
  "isOnline (clearInterval h t) = isOnline t"
  "next_handle (clearInterval h t) = next_handle t"
  "heartbeatInterval (clearInterval h t) = heartbeatInterval t"
  "tabCount (clearInterval h t) = tabCount t"
  "intervals (clearInterval h t) = (case h of None \<Rightarrow> intervals t | Some k \<Rightarrow> removeAll k (intervals t))"
  by (simp_all add: clearInterval_def split: option.splits)

lemma not_running_after_clear: "\<not> heartbeat_running (clearInterval (heartbeatInterval t) t)"
  by (simp add: heartbeat_running_def clearInterval_def split: option.splits)

lemma sendHeartbeat_initial_online:
  assumes "truthy (profile_id t)" "isOnline t" "net w = []" "is_online (profiles_row w)"
  shows "sendHeartbeat True now (w, t) =
     Inr (w\<lparr>issued := issued w @ [HeartbeatUpdate now],
            profiles_row := apply_update (HeartbeatUpdate now) (profiles_row w)\<rparr>,
          t\<lparr>lastHeartbeat := now\<rparr>)"
  using assms by (simp add: sendHeartbeat_def sendHeartbeat_try_def await_def)

lemma updateTabCount_first:
  assumes pid: "truthy (profile_id t)" and net: "net w = []"
    and cnt: "count_keys (AList.update a n (active_tabs w)) = 1"
  shows "updateTabCount a True n (w, t) =
     (w\<lparr>active_tabs := AList.update a n (active_tabs w),
        issued := issued w @ [updateData True n, HeartbeatUpdate n],
        profiles_row := \<lparr>is_online = True, last_seen = None, last_heartbeat = Some n\<rparr>\<rparr>,
      t\<lparr>tabCount := 1, isOnline := True, lastHeartbeat := n,
        intervals := next_handle t # intervals (clearInterval (heartbeatInterval t) t),
        heartbeatInterval := Some (next_handle t), next_handle := next_handle t + 1\<rparr>)"
proof -
  let ?w1 = "w\<lparr>active_tabs := AList.update a n (active_tabs w)\<rparr>"
  let ?t1 = "t\<lparr>tabCount := Suc 0\<rparr>"
  let ?w2 = "?w1\<lparr>issued := issued w @ [updateData True n],
          profiles_row := apply_update (updateData True n) (profiles_row w)\<rparr>"
  let ?t2 = "clearInterval (heartbeatInterval t) (?t1\<lparr>isOnline := True\<rparr>)"
  have u: "updateOnlineStatus True n (?w1, ?t1) = (?w2, ?t1\<lparr>isOnline := True\<rparr>)"
    using updateOnlineStatus_succeeds [of ?t1 ?w1 True n] pid net by simp
  have s: "sendHeartbeat True n (?w2, ?t2) =
     Inr (?w2\<lparr>issued := issued ?w2 @ [HeartbeatUpdate n],
            profiles_row := apply_update (HeartbeatUpdate n) (profiles_row ?w2)\<rparr>,
          ?t2\<lparr>lastHeartbeat := n\<rparr>)"
    by (rule sendHeartbeat_initial_online) (use pid net in \<open>simp_all add: clearInterval_fields updateData_def\<close>)
  have "updateTabCount a True n (w, t) = startHeartbeat n (updateOnlineStatus True n (?w1, ?t1))"
    using cnt by (simp add: updateTabCount_def Let_def)
  also have "\<dots> = startHeartbeat n (?w2, ?t1\<lparr>isOnline := True\<rparr>)"
    by (simp only: u)
  also have "\<dots> = (case sendHeartbeat True n (?w2, ?t2) of
                      Inr (w2, t2) \<Rightarrow> (w2, t2\<lparr>heartbeatInterval := Some (next_handle t2),
                         intervals := next_handle t2 # intervals t2, next_handle := next_handle t2 + 1\<rparr>)
                    | Inl (err, w2, t2) \<Rightarrow> (w2, t2\<lparr>heartbeatInterval := Some (next_handle t2),
                         intervals := next_handle t2 # intervals t2, next_handle := next_handle t2 + 1\<rparr>))"
    by (simp add: startHeartbeat_def Let_def split: sum.splits prod.splits)
  also have "\<dots> = (w\<lparr>active_tabs := AList.update a n (active_tabs w),
        issued := issued w @ [updateData True n, HeartbeatUpdate n],
        profiles_row := \<lparr>is_online = True, last_seen = None, last_heartbeat = Some n\<rparr>\<rparr>,
      t\<lparr>tabCount := 1, isOnline := True, lastHeartbeat := n,
        intervals := next_handle t # intervals (clearInterval (heartbeatInterval t) t),
        heartbeatInterval := Some (next_handle t), next_handle := next_handle t + 1\<rparr>)"
    unfolding s by (simp add: updateData_def clearInterval_def split: option.splits)
  finally show ?thesis .
qed

lemma updateTabCount_other:
  assumes "tabs = (if increment then AList.update a n (active_tabs w) else AList.delete a (active_tabs w))"
    and "\<not> (increment \<and> count_keys tabs = 1)" and "\<not> (\<not> increment \<and> count_keys tabs = 0)"
  shows "updateTabCount a increment n (w, t) = (w\<lparr>active_tabs := tabs\<rparr>, t\<lparr>tabCount := count_keys tabs\<rparr>)"
  using assms by (auto simp: updateTabCount_def Let_def)

lemma updateTabCount_last:
  assumes pid: "truthy (profile_id t)" and net: "net w = []"
    and cnt: "count_keys (AList.delete a (active_tabs w)) = 0"
  shows "updateTabCount a False n (w, t) =
     (w\<lparr>active_tabs := AList.delete a (active_tabs w),
        issued := issued w @ [updateData False n],
        profiles_row := \<lparr>is_online = False, last_seen = Some n, last_heartbeat = None\<rparr>\<rparr>,
      clearInterval (heartbeatInterval t) (t\<lparr>tabCount := 0, isOnline := False\<rparr>))"
proof -
  let ?w1 = "w\<lparr>active_tabs := AList.delete a (active_tabs w)\<rparr>"
  let ?t1 = "t\<lparr>tabCount := 0\<rparr>"
  have u: "updateOnlineStatus False n (?w1, ?t1) =
     (?w1\<lparr>issued := issued w @ [updateData False n],
          profiles_row := apply_update (updateData False n) (profiles_row w)\<rparr>, ?t1\<lparr>isOnline := False\<rparr>)"
    using updateOnlineStatus_succeeds [of ?t1 ?w1 False n] pid net by simp
  show ?thesis using cnt by (simp add: updateTabCount_def Let_def u updateData_def)
qed

lemma clearInterval_idem: "clearInterval h (clearInterval h t) = clearInterval h t"
  by (simp add: clearInterval_def split: option.splits)

lemma clearInterval_update:
  "clearInterval h (t\<lparr>tabCount := c\<rparr>) = (clearInterval h t)\<lparr>tabCount := c\<rparr>"
  "clearInterval h (t\<lparr>isOnline := o'\<rparr>) = (clearInterval h t)\<lparr>isOnline := o'\<rparr>"
  by (simp_all add: clearInterval_def split: option.splits)

lemma unregisterTab_other:
  assumes "count_keys (AList.delete a (active_tabs w)) \<noteq> 0"
  shows "unregisterTab a n (w, t) =
     (w\<lparr>active_tabs := AList.delete a (active_tabs w)\<rparr>,
      (clearInterval (heartbeatInterval t) t)\<lparr>tabCount := count_keys (AList.delete a (active_tabs w))\<rparr>)"
  using assms
    updateTabCount_other [of "AList.delete a (active_tabs w)" False a n w "clearInterval (heartbeatInterval t) t"]
  by (simp add: unregisterTab_def)

lemma unregisterTab_last:
  assumes pid: "truthy (profile_id t)" and net: "net w = []"
    and cnt: "count_keys (AList.delete a (active_tabs w)) = 0"
  shows "unregisterTab a n (w, t) =
     (w\<lparr>active_tabs := AList.delete a (active_tabs w),
        issued := issued w @ [updateData False n, FullUpdate False (Some n) None],
        profiles_row := \<lparr>is_online = False, last_seen = Some n, last_heartbeat = None\<rparr>\<rparr>,
      (clearInterval (heartbeatInterval t) t)\<lparr>tabCount := 0, isOnline := False\<rparr>)"
proof -
  let ?t0 = "clearInterval (heartbeatInterval t) t"
  have u: "updateTabCount a False n (w, ?t0) =
     (w\<lparr>active_tabs := AList.delete a (active_tabs w),
        issued := issued w @ [updateData False n],
        profiles_row := \<lparr>is_online = False, last_seen = Some n, last_heartbeat = None\<rparr>\<rparr>,
      ?t0\<lparr>tabCount := 0, isOnline := False\<rparr>)"
    using updateTabCount_last [of ?t0 w a n] pid net cnt
    by (simp add: clearInterval_fields clearInterval_update clearInterval_idem)
  show ?thesis
    using cnt pid net
    by (simp add: unregisterTab_def u clearInterval_fields await_def Let_def)
qed

lemma two_tabs_run:
  assumes ab: "a \<noteq> b" and pa: "truthy (profile_id ta)" and pb: "truthy (profile_id tb)"
    and reg: "active_tabs w0 = []" and net: "net w0 = []"
  shows "two_tabs a b n1 n2 n3 n4 w0 ta tb =
    (let r1 = \<lparr>is_online = True, last_seen = None, last_heartbeat = Some n1\<rparr>;
         i1 = issued w0 @ [updateData True n1, HeartbeatUpdate n1];
         w1 = w0\<lparr>active_tabs := [(a, n1)], issued := i1, profiles_row := r1\<rparr>;
         w2 = w0\<lparr>active_tabs := [(a, n1), (b, n2)], issued := i1, profiles_row := r1\<rparr>;
         w3 = w0\<lparr>active_tabs := [(b, n2)], issued := i1, profiles_row := r1\<rparr>;
         w4 = w0\<lparr>active_tabs := [],
                  issued := i1 @ [updateData False n4, FullUpdate False (Some n4) None],
                  profiles_row := \<lparr>is_online = False, last_seen = Some n4, last_heartbeat = None\<rparr>\<rparr>;
         ta1 = ta\<lparr>tabCount := 1, isOnline := True, lastHeartbeat := n1,
                   intervals := next_handle ta # intervals (clearInterval (heartbeatInterval ta) ta),
                   heartbeatInterval := Some (next_handle ta), next_handle := next_handle ta + 1\<rparr>
     in ((w1, w2, w3, w4), ta1, tb\<lparr>tabCount := 2\<rparr>,
         (clearInterval (heartbeatInterval ta1) ta1)\<lparr>tabCount := 1\<rparr>,
         (clearInterval (heartbeatInterval tb) tb)\<lparr>tabCount := 0, isOnline := False\<rparr>))"
proof -
  let ?r1 = "\<lparr>is_online = True, last_seen = None, last_heartbeat = Some n1\<rparr>"
  let ?i1 = "issued w0 @ [updateData True n1, HeartbeatUpdate n1]"
  let ?w1 = "w0\<lparr>active_tabs := [(a, n1)], issued := ?i1, profiles_row := ?r1\<rparr>"
  let ?w2 = "w0\<lparr>active_tabs := [(a, n1), (b, n2)], issued := ?i1, profiles_row := ?r1\<rparr>"
  let ?w3 = "w0\<lparr>active_tabs := [(b, n2)], issued := ?i1, profiles_row := ?r1\<rparr>"
  let ?ta1 = "ta\<lparr>tabCount := 1, isOnline := True, lastHeartbeat := n1,
                   intervals := next_handle ta # intervals (clearInterval (heartbeatInterval ta) ta),
                   heartbeatInterval := Some (next_handle ta), next_handle := next_handle ta + 1\<rparr>"
  have s1: "registerTab a n1 (w0, ta) = (?w1, ?ta1)"
    using updateTabCount_first [OF pa net, of a n1] reg by (simp add: count_keys_def registerTab_def)
  have s2: "registerTab b n2 (?w1, tb) = (?w2, tb\<lparr>tabCount := 2\<rparr>)"
    using updateTabCount_other [of "[(a, n1), (b, n2)]" True b n2 ?w1 tb] ab
    by (simp add: count_keys_def registerTab_def)
  have s3: "unregisterTab a n3 (?w2, ?ta1) =
     (?w3, (clearInterval (heartbeatInterval ?ta1) ?ta1)\<lparr>tabCount := 1\<rparr>)"
    using unregisterTab_other [of a ?w2 n3 ?ta1] ab
    by (simp add: count_keys_def AList.delete_eq)
  let ?w4 = "w0\<lparr>active_tabs := [],
                  issued := ?i1 @ [updateData False n4, FullUpdate False (Some n4) None],
                  profiles_row := \<lparr>is_online = False, last_seen = Some n4, last_heartbeat = None\<rparr>\<rparr>"
  have s4: "unregisterTab b n4 (?w3, tb\<lparr>tabCount := 2\<rparr>) =
     (?w4, (clearInterval (heartbeatInterval tb) tb)\<lparr>tabCount := 0, isOnline := False\<rparr>)"
    using unregisterTab_last [of "tb\<lparr>tabCount := 2\<rparr>" ?w3 b n4] pb net
    by (simp add: count_keys_def AList.delete_eq clearInterval_update)
  show ?thesis
    by (simp only: two_tabs_def s1 s2 s3 s4 prod.case Let_def)
qed

lemma heartbeat_running_update:
  "heartbeat_running (t\<lparr>tabCount := c\<rparr>) = heartbeat_running t"
  "heartbeat_running (t\<lparr>isOnline := b\<rparr>) = heartbeat_running t"
  by (simp_all add: heartbeat_running_def split: option.splits)

lemma clearInterval_not_running:
  "\<not> heartbeat_running t \<Longrightarrow> intervals (clearInterval (heartbeatInterval t) t) = intervals t"
  by (auto simp: heartbeat_running_def clearInterval_def split: option.splits)

lemma two_tabs_sample:
  "two_tabs ''tabA'' ''tabB'' 1000 2000 3000 4000 offline_world
     (mounted_tab (Some ''u1'') ''/chat/c1'' 0) (mounted_tab (Some ''u1'') ''/chat/c1'' 0) =
   (let r1 = \<lparr>is_online = True, last_seen = None, last_heartbeat = Some 1000\<rparr>;
        i1 = [updateData True 1000, HeartbeatUpdate 1000];
        w1 = offline_world\<lparr>active_tabs := [(''tabA'', 1000)], issued := i1, profiles_row := r1\<rparr>;
        w2 = offline_world\<lparr>active_tabs := [(''tabA'', 1000), (''tabB'', 2000)], issued := i1,
               profiles_row := r1\<rparr>;
        w3 = offline_world\<lparr>active_tabs := [(''tabB'', 2000)], issued := i1, profiles_row := r1\<rparr>;
        w4 = offline_world\<lparr>active_tabs := [],
               issued := i1 @ [updateData False 4000, FullUpdate False (Some 4000) None],
               profiles_row := \<lparr>is_online = False, last_seen = Some 4000, last_heartbeat = None\<rparr>\<rparr>;
        t0 = mounted_tab (Some ''u1'') ''/chat/c1'' 0;
        ta1 = t0\<lparr>tabCount := 1, isOnline := True, lastHeartbeat := 1000, intervals := [1],
                 heartbeatInterval := Some 1, next_handle := 2\<rparr>
    in ((w1, w2, w3, w4), ta1, t0\<lparr>tabCount := 2\<rparr>, ta1\<lparr>intervals := []\<rparr>,
        t0\<lparr>isOnline := False\<rparr>))"
proof -
  have p: "truthy (profile_id (mounted_tab (Some ''u1'') ''/chat/c1'' 0))"
    by (simp add: mounted_tab_def truthy_def)
  have r: "active_tabs offline_world = []" and n: "net offline_world = []"
    by (simp_all add: offline_world_def)
  have ab: "''tabA'' \<noteq> ''tabB''" by simp
  show ?thesis
    unfolding two_tabs_run [OF ab p p r n]
    by (simp add: Let_def mounted_tab_def offline_world_def clearInterval_def)
qed

text \<open>
  C4, as stated: the heartbeat is stopped at unregisterTab(B), and the two middle calls
  change no presence state. In the code the only heartbeat runs in tab A, and the
  cleanup that unregisters tab A clears it: after the third call the row still says
  online, tab B is still registered, and no heartbeat runs in either tab.
\<close>

theorem heartbeat_stopped_by_first_unregister:
  "(case two_tabs ''tabA'' ''tabB'' 1000 2000 3000 4000 offline_world
           (mounted_tab (Some ''u1'') ''/chat/c1'' 0) (mounted_tab (Some ''u1'') ''/chat/c1'' 0) of
      ((w1, w2, w3, w4), ta1, tb1, ta2, tb2) \<Rightarrow>
        heartbeat_running ta1 \<and> \<not> heartbeat_running tb1 \<and> \<not> heartbeat_running ta2
        \<and> is_online (profiles_row w3) \<and> count_keys (active_tabs w3) = 1
        \<and> intervals tb2 = intervals tb1)"
  unfolding two_tabs_sample
  by (simp add: Let_def heartbeat_running_def mounted_tab_def count_keys_def offline_world_def)

text \<open>
  With no heartbeat left, the liveness check of the tab that is still open finds the
  heartbeat stale after 35 seconds and writes the user offline.
\<close>

lemma presence_goes_stale_after_first_tab_leaves:
  "(case two_tabs ''tabA'' ''tabB'' 1000 2000 3000 4000 offline_world
           (mounted_tab (Some ''u1'') ''/chat/c1'' 0) (mounted_tab (Some ''u1'') ''/chat/c1'' 0) of
      ((w1, w2, w3, w4), ta1, tb1, ta2, tb2) \<Rightarrow>
        (case checkHeartbeatStatus 37000 (w3, tb1) of (w', t') \<Rightarrow>
           \<not> is_online (profiles_row w') \<and> count_keys (active_tabs w') = 1))"
  unfolding two_tabs_sample
  by (simp add: Let_def checkHeartbeatStatus_def updateOnlineStatus_def await_def updateData_def
      mounted_tab_def truthy_def offline_world_def count_keys_def)

text \<open>
  C4, amended. Two tabs with distinct ids, no heartbeat running in tab B, an empty
  registry, an offline row, and requests that succeed. The registry counts after the
  four calls are 1, 2, 1, 0. The row changes twice: it goes online at registerTab(A),
  where tab A starts its heartbeat, and offline at unregisterTab(B). The two middle calls
  send no update and leave the row as it is: registerTab(B) changes the registry and
  tab B's count only and starts no heartbeat; unregisterTab(A) changes the registry and
  tab A's count and clears tab A's heartbeat interval, after which no heartbeat runs.
  unregisterTab(B) has no interval to clear.
\<close>

theorem two_tab_row_transitions_and_heartbeat:
  assumes "a \<noteq> b" and "truthy (profile_id ta)" and "truthy (profile_id tb)"
    and "\<not> heartbeat_running tb"
    and "active_tabs w0 = []" and "net w0 = []" and "\<not> is_online (profiles_row w0)"
    and "two_tabs a b n1 n2 n3 n4 w0 ta tb = ((w1, w2, w3, w4), ta1, tb1, ta2, tb2)"
  shows "map (\<lambda>w. count_keys (active_tabs w)) [w0, w1, w2, w3, w4] = [0, 1, 2, 1, 0]
       \<and> map (\<lambda>w. is_online (profiles_row w)) [w0, w1, w2, w3, w4]
           = [False, True, True, True, False]
       \<and> issued w1 = issued w0 @ [updateData True n1, HeartbeatUpdate n1]
       \<and> isOnline ta1 \<and> heartbeat_running ta1
       \<and> w2 = w1\<lparr>active_tabs := [(a, n1), (b, n2)]\<rparr>
       \<and> tb1 = tb\<lparr>tabCount := 2\<rparr> \<and> \<not> heartbeat_running tb1
       \<and> w3 = w2\<lparr>active_tabs := [(b, n2)]\<rparr>
       \<and> ta2 = (clearInterval (heartbeatInterval ta1) ta1)\<lparr>tabCount := 1\<rparr>
       \<and> \<not> heartbeat_running ta2
       \<and> issued w4 = issued w3 @ [updateData False n4, FullUpdate False (Some n4) None]
       \<and> profiles_row w4 = \<lparr>is_online = False, last_seen = Some n4, last_heartbeat = None\<rparr>
       \<and> \<not> isOnline tb2 \<and> intervals tb2 = intervals tb1 \<and> \<not> heartbeat_running tb2"
proof -
  note run = two_tabs_run [OF assms(1-3,5,6), of n1 n2 n3 n4]
  from assms(8) run
  have w: "w1 = w0\<lparr>active_tabs := [(a, n1)],
                   issued := issued w0 @ [updateData True n1, HeartbeatUpdate n1],
                   profiles_row := \<lparr>is_online = True, last_seen = None, last_heartbeat = Some n1\<rparr>\<rparr>"
      "w2 = w0\<lparr>active_tabs := [(a, n1), (b, n2)],
                   issued := issued w0 @ [updateData True n1, HeartbeatUpdate n1],
                   profiles_row := \<lparr>is_online = True, last_seen = None, last_heartbeat = Some n1\<rparr>\<rparr>"
      "w3 = w0\<lparr>active_tabs := [(b, n2)],
                   issued := issued w0 @ [updateData True n1, HeartbeatUpdate n1],
                   profiles_row := \<lparr>is_online = True, last_seen = None, last_heartbeat = Some n1\<rparr>\<rparr>"
      "w4 = w0\<lparr>active_tabs := [],
                   issued := (issued w0 @ [updateData True n1, HeartbeatUpdate n1])
                             @ [updateData False n4, FullUpdate False (Some n4) None],
                   profiles_row := \<lparr>is_online = False, last_seen = Some n4, last_heartbeat = None\<rparr>\<rparr>"
    and t: "ta1 = ta\<lparr>tabCount := 1, isOnline := True, lastHeartbeat := n1,
                   intervals := next_handle ta # intervals (clearInterval (heartbeatInterval ta) ta),
                   heartbeatInterval := Some (next_handle ta), next_handle := next_handle ta + 1\<rparr>"
      "tb1 = tb\<lparr>tabCount := 2\<rparr>"
      "ta2 = (clearInterval (heartbeatInterval ta1) ta1)\<lparr>tabCount := 1\<rparr>"
      "tb2 = (clearInterval (heartbeatInterval tb) tb)\<lparr>tabCount := 0, isOnline := False\<rparr>"
    by (auto simp: Let_def)
  have c: "map (\<lambda>w. count_keys (active_tabs w)) [w0, w1, w2, w3, w4] = [0, 1, 2, 1, 0]"
    using assms(1,5) by (simp add: w count_keys_def)
  have o: "map (\<lambda>w. is_online (profiles_row w)) [w0, w1, w2, w3, w4]
           = [False, True, True, True, False]"
    using assms(7) by (simp add: w)
  have i: "issued w1 = issued w0 @ [updateData True n1, HeartbeatUpdate n1]"
      "w2 = w1\<lparr>active_tabs := [(a, n1), (b, n2)]\<rparr>"
      "w3 = w2\<lparr>active_tabs := [(b, n2)]\<rparr>"
      "issued w4 = issued w3 @ [updateData False n4, FullUpdate False (Some n4) None]"
      "profiles_row w4 = \<lparr>is_online = False, last_seen = Some n4, last_heartbeat = None\<rparr>"
    by (simp_all add: w)
  have h1: "isOnline ta1" "heartbeat_running ta1"
    by (simp_all add: t(1) heartbeat_running_def)
  have h2: "\<not> heartbeat_running ta2"
    using not_running_after_clear [of ta1]
    by (simp add: t(3) heartbeat_running_update)
  have hb: "\<not> heartbeat_running tb1"
    using assms(4) by (simp add: t(2) heartbeat_running_update)
  have h3: "\<not> isOnline tb2" "\<not> heartbeat_running tb2" "intervals tb2 = intervals tb1"
    using not_running_after_clear [of tb] clearInterval_not_running [OF assms(4)]
    by (simp_all add: t(2,4) heartbeat_running_update)
  from c o i h1 h2 hb h3 t(2,3) show ?thesis by simp
qed

theorem two_tab_row_transitions_and_heartbeat_witness:
  "(case two_tabs ''tabA'' ''tabB'' 1000 2000 3000 4000 offline_world
           (mounted_tab (Some ''u1'') ''/chat/c1'' 0) (mounted_tab (Some ''u1'') ''/chat/c1'' 0) of
      ((w1, w2, w3, w4), ta1, tb1, ta2, tb2) \<Rightarrow>
        map (\<lambda>w. is_online (profiles_row w)) [offline_world, w1, w2, w3, w4]
          = [False, True, True, True, False]
        \<and> map (\<lambda>w. count_keys (active_tabs w)) [offline_world, w1, w2, w3, w4] = [0, 1, 2, 1, 0]
        \<and> issued w3 = [updateData True 1000, HeartbeatUpdate 1000]
        \<and> issued w4 = [updateData True 1000, HeartbeatUpdate 1000,
                        updateData False 4000, FullUpdate False (Some 4000) None]
        \<and> heartbeat_running ta1 \<and> \<not> heartbeat_running tb1
        \<and> \<not> heartbeat_running ta2 \<and> \<not> heartbeat_running tb2)"
proof -
  have ab: "''tabA'' \<noteq> ''tabB''" by simp
  have p: "truthy (profile_id (mounted_tab (Some ''u1'') ''/chat/c1'' 0))"
    by (simp add: mounted_tab_def truthy_def)
  have q: "\<not> heartbeat_running (mounted_tab (Some ''u1'') ''/chat/c1'' 0)"
    by (simp add: mounted_tab_def heartbeat_running_def)
  have r: "active_tabs offline_world = []" and n: "net offline_world = []"
    and f: "\<not> is_online (profiles_row offline_world)" and e: "issued offline_world = []"
    by (simp_all add: offline_world_def)
  obtain w1 w2 w3 w4 ta1 tb1 ta2 tb2 where
    run: "two_tabs ''tabA'' ''tabB'' 1000 2000 3000 4000 offline_world
           (mounted_tab (Some ''u1'') ''/chat/c1'' 0) (mounted_tab (Some ''u1'') ''/chat/c1'' 0)
          = ((w1, w2, w3, w4), ta1, tb1, ta2, tb2)"
    by (metis surj_pair)
  from two_tab_row_transitions_and_heartbeat [OF ab p p q r n f run]
  have "map (\<lambda>w. is_online (profiles_row w)) [offline_world, w1, w2, w3, w4]
          = [False, True, True, True, False]"
    and "map (\<lambda>w. count_keys (active_tabs w)) [offline_world, w1, w2, w3, w4] = [0, 1, 2, 1, 0]"
    and "issued w3 = [updateData True 1000, HeartbeatUpdate 1000]"
    and "issued w4 = [updateData True 1000, HeartbeatUpdate 1000,
                        updateData False 4000, FullUpdate False (Some 4000) None]"
    and "heartbeat_running ta1" and "\<not> heartbeat_running tb1"
    and "\<not> heartbeat_running ta2" and "\<not> heartbeat_running tb2"
    using e q by (auto simp: count_keys_def heartbeat_running_update)
  then show ?thesis by (simp add: run)
qed

section \<open>Opening the channel: what a failed attempt leads to\<close>

lemma fetchInitialData_returns:
  "fetchInitialData messagesError v =
     Inr (if messagesError then view_error ''Error fetching initial data'' v else v)"
  by (simp add: fetchInitialData_def fetchInitialData_try_def)

lemma setupRealtimeSubscription_returns:
  "setupRealtimeSubscription outcome v =
     Inr (if \<not> mountedRef v \<or> \<not> has_profile_id v then v
          else if outcome = Rejected
          then setConnectionStatus Disconnected
                 (view_error ''Error setting up real-time'' (setConnectionStatus Connecting v))
          else setConnectionStatus Connecting v)"
  by (simp add: setupRealtimeSubscription_def setupRealtimeSubscription_try_def Let_def)

lemma view_error_fields:
  "mountedRef (view_error m v) = mountedRef v" "has_profile_id (view_error m v) = has_profile_id v"
  "connectionStatus (view_error m v) = connectionStatus v"
  "initializationAttempts (view_error m v) = initializationAttempts v"
  "reconnectTimeout (view_error m v) = reconnectTimeout v"
  "reconnect_timer (view_error m v) = reconnect_timer v" "timeouts (view_error m v) = timeouts v"
  by (simp_all add: view_error_def)

lemma setConnectionStatus_fields:
  "mountedRef (setConnectionStatus c v) = mountedRef v"
  "has_profile_id (setConnectionStatus c v) = has_profile_id v"
  "connectionStatus (setConnectionStatus c v) = c"
  "initializationAttempts (setConnectionStatus c v) = initializationAttempts v"
  "reconnectTimeout (setConnectionStatus c v) = reconnectTimeout v"
  by (simp_all add: setConnectionStatus_def)

text \<open>
  Both functions awaited by \<^verbatim>\<open>initializeChat\<close> return normally whatever happens, so
  its \<^verbatim>\<open>catch\<close> is never entered: the counter stays at zero and its timer is never
  started.
\<close>

lemma initializeChat_catch_unreachable:
  "\<exists>v'. (case fetchInitialData messagesError v of
            Inl e \<Rightarrow> Inl e
          | Inr v1 \<Rightarrow> setupRealtimeSubscription outcome v1) = Inr v'
        \<and> initializeChat messagesError outcome v = v'\<lparr>initializationAttempts := 0\<rparr>"
  by (simp add: initializeChat_def fetchInitialData_returns setupRealtimeSubscription_returns)

lemma initializeChat_never_backs_off:
  "initializationAttempts (initializeChat messagesError outcome v) = 0
   \<and> reconnectTimeout (initializeChat messagesError outcome v) = reconnectTimeout v"
  by (simp add: initializeChat_def fetchInitialData_returns setupRealtimeSubscription_returns
      setConnectionStatus_fields view_error_fields)

text \<open>The delay formula of that \<^verbatim>\<open>catch\<close>: doubling up to 8 s, 10 s from the fourth failure on.\<close>

lemma retry_delay_values:
  "retry_delay k = (if k \<le> 3 then 1000 * 2 ^ k else 10000)"
proof (cases "k \<le> 3")
  case True
  then have "(2::nat) ^ k \<le> 2 ^ 3" by (intro power_increasing) simp_all
  with True show ?thesis by (simp add: retry_delay_def)
next
  case False
  then have "(2::nat) ^ 4 \<le> 2 ^ k" by (intro power_increasing) simp_all
  with False show ?thesis by (simp add: retry_delay_def)
qed







text \<open>An attempt that succeeds ends the retries.\<close>

lemma successful_open_connects:
  "connectionStatus (attempts False [ErrorStatus, Subscribed] on_mount) = Connected
   \<and> \<not> reconnect_timer (attempts False [ErrorStatus, Subscribed] on_mount)
   \<and> timeouts (attempts False [ErrorStatus, Subscribed] on_mount) = [3000]"
  by (simp add: attempts_def first_attempt_def reconnect_timer_fires_def initializeChat_def
      fetchInitialData_returns setupRealtimeSubscription_returns subscribed_to_def
      subscribe_callback_def setConnectionStatus_def view_error_def on_mount_def Let_def)

end
